theory Spec2Isabelle
  imports Complex_Main "HOL-Library.Word"
begin

section \<open>Values of the worker\<close>

text \<open>
  A JavaScript string is a sequence of UTF-16 code units. Literals of the source are
  ASCII and are written with \<open>js\<close>.
\<close>

type_synonym jsstring = "16 word list"

definition js :: "string \<Rightarrow> jsstring" where
  "js s = map of_char s"

text \<open>
  A JavaScript number that is the result of the rate computation: a finite value, or what
  the division gives when the elapsed time is zero. Finite arithmetic is exact here; the
  rounding of doubles is not part of the model.
\<close>

datatype jsnum = Fin real | PosInfinity | NaN

text \<open>\<open>(numTokens / (now - startTime)) * 1000\<close> on JavaScript numbers.\<close>

definition tokens_per_second :: "nat \<Rightarrow> real \<Rightarrow> real \<Rightarrow> jsnum" where
  "tokens_per_second n now start =
     (if now - start = 0 then (if n = 0 then NaN else PosInfinity)
      else Fin (real n / (now - start) * 1000))"

text \<open>Thrown values. The handlers report \<open>error.message\<close> of an Error and
  \<open>String(error)\<close> of anything else.\<close>

datatype thrown = Error jsstring | TypeError jsstring | NonError jsstring

fun error_message :: "thrown \<Rightarrow> jsstring" where
  "error_message (Error m) = m"
| "error_message (TypeError m) = m"
| "error_message (NonError s) = s"

subsection \<open>types.ts\<close>

datatype msg_role = System | User | Assistant

record Message =
  role :: msg_role
  content :: jsstring

text \<open>Values of a settings object; the worker passes them on and never inspects them.\<close>

datatype jsval = JBool bool | JNum real | JStr jsstring | JUndefined

text \<open>An object of settings is the map of its own keys; \<open>{...a, ...b}\<close> is \<open>a ++ b\<close>.\<close>

type_synonym GenerationConfig = "jsstring \<rightharpoonup> jsval"

text \<open>The decoding cache is opaque: \<open>None\<close> is \<open>null\<close>, \<open>Some c\<close> a cache object.\<close>

type_synonym kv = nat

record StreamData =
  token :: jsstring
  fullText :: jsstring
  stream_tokenCount :: nat

record TokenStats =
  tokensPerSecond :: jsnum
  tokenCount :: nat

record SessionInfo =
  messageCount :: nat
  info_createdAt :: int
  hasPastKeyValues :: bool

record SessionData =
  messages :: "Message list"
  pastKeyValues :: "kv option"
  createdAt :: int

record ChatGenerationOptions =
  message :: jsstring
  sessionId :: "jsstring option"
  systemMessage :: "jsstring option"
  streamCallback :: bool
  tokenCallback :: bool
  generationConfig :: "GenerationConfig option"

record SingleGenerationOptions =
  prompt :: jsstring
  single_systemMessage :: "jsstring option"
  single_streamCallback :: bool
  single_tokenCallback :: bool
  single_generationConfig :: "GenerationConfig option"

record ChatGenerationResult =
  chat_text :: jsstring
  chat_sessionId :: jsstring
  chat_messageCount :: nat
  chat_tokensPerSecond :: jsnum

record SingleGenerationResult =
  single_text :: jsstring
  single_tokensPerSecond :: jsnum

record InternalGenerationResult =
  result_text :: jsstring
  result_pastKeyValues :: "kv option"
  result_tokensPerSecond :: jsnum

text \<open>
  An optional observer is a flag (supplied or not); each invocation of a supplied
  observer is recorded, in order, with the argument it received.
\<close>

datatype callback_call = StreamCall StreamData | TokenCall TokenStats

section \<open>The model runtime\<close>

text \<open>
  The tokenizer, the model and the clocks are outside the repository. One value of
  \<open>runtime\<close> is what they do during one call: whether templating throws, what the
  streamer is fed and whether generation throws, what decoding returns, and what the
  clocks read. The streamer invokes \<open>token_callback_function\<close> and
  \<open>callback_function\<close>; a token event carries the reading of
  \<open>performance.now()\<close> at that moment (the token callback reads the clock at most once).
\<close>

datatype stream_event = TokenEvent real | TextEvent jsstring

type_synonym prompt_inputs = "nat list"
type_synonym tensor = "nat list list"

record generate_result =
  sequences :: tensor
  past_key_values :: "kv option"

record generate_run =
  events :: "stream_event list"
  outcome :: "thrown + generate_result"

record runtime =
  date_now :: int
  apply_chat_template :: "Message list \<Rightarrow> thrown + prompt_inputs"
  generate :: "prompt_inputs \<Rightarrow> kv option \<Rightarrow> GenerationConfig \<Rightarrow> generate_run"
  batch_decode :: "tensor \<Rightarrow> thrown + jsstring list"
  end_now :: real

section \<open>GenericLLMPipeline\<close>

text \<open>The arguments of one call of \<open>_generate\<close>.\<close>

record generate_call =
  call_messages :: "Message list"
  call_pastKeyValues :: "kv option"
  call_config :: GenerationConfig

text \<open>
  The fields of the class: \<open>tokenizer\<close> and \<open>model\<close> are null or loaded,
  \<open>sessionHistory\<close> is the Map of sessions, \<open>currentStoppingCriteria\<close> is null or
  the latest criteria object with its interrupted flag. \<open>generate_calls\<close> is not a
  field of the class: it lists the arguments of every call of \<open>_generate\<close> so far, and
  no operation reads it.
\<close>

record pipeline =
  tokenizer :: bool
  model :: bool
  config :: "GenerationConfig option"
  sessionHistory :: "jsstring \<rightharpoonup> SessionData"
  currentStoppingCriteria :: "bool option"
  generate_calls :: "generate_call list"

definition DEFAULT_GENERATION_CONFIG :: GenerationConfig where
  "DEFAULT_GENERATION_CONFIG =
     [js ''do_sample'' \<mapsto> JBool True,
      js ''temperature'' \<mapsto> JNum 0.7,
      js ''top_p'' \<mapsto> JNum 0.9,
      js ''max_new_tokens'' \<mapsto> JNum 1024,
      js ''repetition_penalty'' \<mapsto> JNum 1.1]"

definition DEFAULT_SYSTEM_MESSAGE :: Message where
  "DEFAULT_SYSTEM_MESSAGE =
     \<lparr>role = System,
      content = js ''You are a helpful AI assistant. Provide clear, concise, and accurate responses.''\<rparr>"

text \<open>A parameter \<open>sessionId = 'default'\<close>: the default stands in for undefined only.\<close>

definition sessionId_or_default :: "jsstring option \<Rightarrow> jsstring" where
  "sessionId_or_default sid = (case sid of None \<Rightarrow> js ''default'' | Some s \<Rightarrow> s)"

text \<open>
  \<open>getSession\<close> returns the session object held by the Map; the model returns its value
  and the pipeline, in which the session is stored when it was created. An undefined or
  empty system message is falsy. \<open>now\<close> is what \<open>Date.now()\<close> reads.
\<close>

definition getSession :: "pipeline \<Rightarrow> jsstring option \<Rightarrow> jsstring option \<Rightarrow> int \<Rightarrow> SessionData \<times> pipeline" where
  "getSession p sid sysmsg now =
     (let key = sessionId_or_default sid in
      case sessionHistory p key of
        Some session \<Rightarrow> (session, p)
      | None \<Rightarrow>
          (let initialMessage =
                 (case sysmsg of
                    None \<Rightarrow> DEFAULT_SYSTEM_MESSAGE
                  | Some s \<Rightarrow> if s = [] then DEFAULT_SYSTEM_MESSAGE
                              else \<lparr>role = System, content = s\<rparr>);
               session = \<lparr>messages = [initialMessage], pastKeyValues = None, createdAt = now\<rparr>
           in (session, p\<lparr>sessionHistory := (sessionHistory p)(key \<mapsto> session)\<rparr>)))"

definition clearSession :: "pipeline \<Rightarrow> jsstring option \<Rightarrow> pipeline" where
  "clearSession p sid =
     (let key = sessionId_or_default sid in
      if sessionHistory p key \<noteq> None
      then p\<lparr>sessionHistory := (sessionHistory p)(key := None)\<rparr>
      else p)"

definition getSessionInfo :: "pipeline \<Rightarrow> jsstring option \<Rightarrow> SessionInfo option" where
  "getSessionInfo p sid =
     (case sessionHistory p (sessionId_or_default sid) of
        None \<Rightarrow> None
      | Some session \<Rightarrow>
          Some \<lparr>messageCount = length (messages session),
                info_createdAt = createdAt session,
                hasPastKeyValues = (pastKeyValues session \<noteq> None)\<rparr>)"

definition interrupt :: "pipeline \<Rightarrow> pipeline" where
  "interrupt p =
     (case currentStoppingCriteria p of
        None \<Rightarrow> p
      | Some _ \<Rightarrow> p\<lparr>currentStoppingCriteria := Some True\<rparr>)"

subsection \<open>The streamer callbacks of \<open>_generate\<close>\<close>

record gen_state =
  startTime :: "real option"
  numTokens :: nat
  generatedText :: jsstring

definition initial_gen_state :: gen_state where
  "initial_gen_state = \<lparr>startTime = None, numTokens = 0, generatedText = []\<rparr>"

text \<open>
  \<open>startTime ??= performance.now()\<close> reads the clock only while \<open>startTime\<close> is
  undefined; \<open>numTokens++ > 0\<close> compares the old count and stores the new one.
\<close>

definition tokenCallbackFunction :: "bool \<Rightarrow> real \<Rightarrow> gen_state \<Rightarrow> callback_call list \<times> gen_state" where
  "tokenCallbackFunction tokenCb now st =
     (let start = (case startTime st of None \<Rightarrow> now | Some t \<Rightarrow> t);
          old = numTokens st;
          st' = st\<lparr>startTime := Some start, numTokens := old + 1\<rparr>
      in if old > 0 \<and> tokenCb
         then ([TokenCall \<lparr>tokensPerSecond = tokens_per_second (numTokens st') now start,
                           tokenCount = numTokens st'\<rparr>], st')
         else ([], st'))"

definition streamCallbackFunction :: "bool \<Rightarrow> jsstring \<Rightarrow> gen_state \<Rightarrow> callback_call list \<times> gen_state" where
  "streamCallbackFunction streamCb output st =
     (let st' = st\<lparr>generatedText := generatedText st @ output\<rparr>
      in if streamCb
         then ([StreamCall \<lparr>token = output, fullText = generatedText st',
                            stream_tokenCount = numTokens st'\<rparr>], st')
         else ([], st'))"

fun run_streamer :: "bool \<Rightarrow> bool \<Rightarrow> stream_event list \<Rightarrow> gen_state \<Rightarrow> callback_call list \<times> gen_state" where
  "run_streamer streamCb tokenCb [] st = ([], st)"
| "run_streamer streamCb tokenCb (e # es) st =
     (let (calls, st') =
            (case e of
               TokenEvent now \<Rightarrow> tokenCallbackFunction tokenCb now st
             | TextEvent output \<Rightarrow> streamCallbackFunction streamCb output st);
          (calls', st'') = run_streamer streamCb tokenCb es st'
      in (calls @ calls', st''))"

subsection \<open>Cleaning up the final output\<close>

text \<open>
  \<open>String.prototype.split\<close> with a string separator: the matches are found from left to
  right, each search starting behind the previous match.
\<close>

function split_from :: "'a list \<Rightarrow> 'a list \<Rightarrow> 'a list \<Rightarrow> 'a list list" where
  "split_from sep cur [] = [cur]"
| "split_from sep cur (c # cs) =
     (if sep \<noteq> [] \<and> take (length sep) (c # cs) = sep
      then cur # split_from sep [] (drop (length sep) (c # cs))
      else split_from sep (cur @ [c]) cs)"
  by pat_completeness auto
termination
  by (relation "measure (\<lambda>(sep, cur, s). length s)") auto

definition js_split :: "'a list \<Rightarrow> 'a list \<Rightarrow> 'a list list" where
  "js_split sep s = (if sep = [] then map (\<lambda>c. [c]) s else split_from sep [] s)"

text \<open>The code units that \<open>String.prototype.trim\<close> removes: white space and line terminators.\<close>

definition is_js_space :: "16 word \<Rightarrow> bool" where
  "is_js_space c \<longleftrightarrow>
     c \<in> {0x0009, 0x000A, 0x000B, 0x000C, 0x000D, 0x0020, 0x00A0, 0x1680,
          0x2028, 0x2029, 0x202F, 0x205F, 0x3000, 0xFEFF}
     \<or> (0x2000 \<le> c \<and> c \<le> 0x200A)"

definition js_trim :: "jsstring \<Rightarrow> jsstring" where
  "js_trim s = rev (dropWhile is_js_space (rev (dropWhile is_js_space s)))"

text \<open>The separator \<open>'assistant\n'\<close>.\<close>

definition assistant_marker :: jsstring where
  "assistant_marker = js ''assistant'' @ [0x000A]"

text \<open>\<open>decoded[0].split('assistant\n').pop()?.trim() || generatedText\<close>\<close>

definition final_text :: "jsstring \<Rightarrow> jsstring \<Rightarrow> jsstring" where
  "final_text decoded0 generated =
     (let t = js_trim (last (js_split assistant_marker decoded0))
      in if t = [] then generated else t)"

text \<open>\<open>startTime ? (numTokens / (performance.now() - startTime)) * 1000 : 0\<close>\<close>

definition final_tps :: "gen_state \<Rightarrow> real \<Rightarrow> jsnum" where
  "final_tps st now =
     (case startTime st of
        None \<Rightarrow> Fin 0
      | Some start \<Rightarrow> if start = 0 then Fin 0 else tokens_per_second (numTokens st) now start)"

subsection \<open>\<open>_generate\<close>\<close>

text \<open>
  The result is the observer invocations in order, the returned value or the thrown one,
  and the pipeline. \<open>decoded[0]\<close> of an empty array is undefined, and calling
  \<open>split\<close> on it throws a TypeError.
\<close>

definition generate_internal ::
  "runtime \<Rightarrow> pipeline \<Rightarrow> Message list \<Rightarrow> kv option \<Rightarrow> GenerationConfig \<Rightarrow> bool \<Rightarrow> bool
   \<Rightarrow> callback_call list \<times> (thrown + InternalGenerationResult) \<times> pipeline" where
  "generate_internal rt p msgs pkv cfg streamCb tokenCb =
     (let p0 = p\<lparr>generate_calls := generate_calls p @
                  [\<lparr>call_messages = msgs, call_pastKeyValues = pkv, call_config = cfg\<rparr>]\<rparr>
      in case apply_chat_template rt msgs of
           Inl e \<Rightarrow> ([], Inl e, p0)
         | Inr inputs \<Rightarrow>
             (let p1 = p0\<lparr>currentStoppingCriteria := Some False\<rparr>;
                  run = generate rt inputs pkv cfg;
                  (calls, st) = run_streamer streamCb tokenCb (events run) initial_gen_state
              in case outcome run of
                   Inl e \<Rightarrow> (calls, Inl e, p1)
                 | Inr result \<Rightarrow>
                     (case batch_decode rt (sequences result) of
                        Inl e \<Rightarrow> (calls, Inl e, p1)
                      | Inr [] \<Rightarrow>
                          (calls, Inl (TypeError (js ''Cannot read properties of undefined (reading 'split')'')), p1)
                      | Inr (decoded0 # _) \<Rightarrow>
                          (calls,
                           Inr \<lparr>result_text = final_text decoded0 (generatedText st),
                                result_pastKeyValues = past_key_values result,
                                result_tokensPerSecond = final_tps st (end_now rt)\<rparr>,
                           p1))))"

subsection \<open>\<open>generateChat\<close> and \<open>generateSingle\<close>\<close>

definition uninitialized_error :: thrown where
  "uninitialized_error = Error (js ''Model not initialized. Call initialize() first.'')"

text \<open>\<open>{ ...this.config!, ...generationConfig }\<close>; spreading null adds no key.\<close>

definition merged_config :: "pipeline \<Rightarrow> GenerationConfig option \<Rightarrow> GenerationConfig" where
  "merged_config p overrides =
     (case config p of None \<Rightarrow> Map.empty | Some c \<Rightarrow> c)
     ++ (case overrides of None \<Rightarrow> Map.empty | Some g \<Rightarrow> g)"

text \<open>
  \<open>session\<close> is the object held by the Map, so each push and the assignment of the
  cache change the stored session at once: the user turn is in the store before
  \<open>_generate\<close> is called.
\<close>

definition generateChat ::
  "runtime \<Rightarrow> pipeline \<Rightarrow> ChatGenerationOptions
   \<Rightarrow> callback_call list \<times> (thrown + ChatGenerationResult) \<times> pipeline" where
  "generateChat rt p options =
     (if \<not> model p \<or> \<not> tokenizer p then ([], Inl uninitialized_error, p)
      else
        (let sid = sessionId_or_default (sessionId options);
             (session, p1) = getSession p (Some sid) (systemMessage options) (date_now rt);
             session1 = session\<lparr>messages := messages session @ [\<lparr>role = User, content = message options\<rparr>]\<rparr>;
             p2 = p1\<lparr>sessionHistory := (sessionHistory p1)(sid \<mapsto> session1)\<rparr>;
             (calls, response, p3) =
               generate_internal rt p2 (messages session1) (pastKeyValues session1)
                 (merged_config p2 (generationConfig options))
                 (streamCallback options) (tokenCallback options)
         in case response of
              Inl e \<Rightarrow> (calls, Inl e, p3)
            | Inr r \<Rightarrow>
                (let session2 = session1\<lparr>messages := messages session1 @ [\<lparr>role = Assistant, content = result_text r\<rparr>],
                                         pastKeyValues := result_pastKeyValues r\<rparr>;
                     p4 = p3\<lparr>sessionHistory := (sessionHistory p3)(sid \<mapsto> session2)\<rparr>
                 in (calls,
                     Inr \<lparr>chat_text = result_text r, chat_sessionId = sid,
                          chat_messageCount = length (messages session2),
                          chat_tokensPerSecond = result_tokensPerSecond r\<rparr>,
                     p4))))"

definition generateSingle ::
  "runtime \<Rightarrow> pipeline \<Rightarrow> SingleGenerationOptions
   \<Rightarrow> callback_call list \<times> (thrown + SingleGenerationResult) \<times> pipeline" where
  "generateSingle rt p options =
     (if \<not> model p \<or> \<not> tokenizer p then ([], Inl uninitialized_error, p)
      else
        (let msgs = (case single_systemMessage options of
                       None \<Rightarrow> []
                     | Some s \<Rightarrow> if s = [] then [] else [\<lparr>role = System, content = s\<rparr>])
                    @ [\<lparr>role = User, content = prompt options\<rparr>];
             (calls, response, p1) =
               generate_internal rt p msgs None
                 (merged_config p (single_generationConfig options))
                 (single_streamCallback options) (single_tokenCallback options)
         in case response of
              Inl e \<Rightarrow> (calls, Inl e, p1)
            | Inr r \<Rightarrow>
                (calls,
                 Inr \<lparr>single_text = result_text r,
                      single_tokensPerSecond = result_tokensPerSecond r\<rparr>,
                 p1)))"

section \<open>The worker's message handlers\<close>

datatype status =
  S_success | S_error | S_loading | S_progress | S_ready | S_start | S_streaming
  | S_token_stats | S_complete

datatype message_data =
  SessionIdData jsstring
  | EmptyData
  | StreamingData StreamData
  | TokenStatsData TokenStats
  | ChatResultData ChatGenerationResult
  | SingleResultData SingleGenerationResult
  | ErrorData jsstring

record WorkerMessage =
  msg_type :: jsstring
  msg_status :: status
  msg_data :: message_data

text \<open>The two callbacks of a handler post what they receive.\<close>

fun post_callback :: "jsstring \<Rightarrow> callback_call \<Rightarrow> WorkerMessage" where
  "post_callback ty (StreamCall d) = \<lparr>msg_type = ty, msg_status = S_streaming, msg_data = StreamingData d\<rparr>"
| "post_callback ty (TokenCall d) = \<lparr>msg_type = ty, msg_status = S_token_stats, msg_data = TokenStatsData d\<rparr>"

text \<open>\<open>options.sessionId || 'default'\<close>: undefined and the empty string are falsy.\<close>

definition sessionId_or_falsy_default :: "jsstring option \<Rightarrow> jsstring" where
  "sessionId_or_falsy_default sid =
     (case sid of None \<Rightarrow> js ''default'' | Some s \<Rightarrow> if s = [] then js ''default'' else s)"

text \<open>
  A handler returns the messages it posts, in order, and the pipeline. The handler
  replaces the observers of the options by its own, so both are supplied.
\<close>

definition handle_generateChat ::
  "runtime \<Rightarrow> pipeline \<Rightarrow> ChatGenerationOptions \<Rightarrow> WorkerMessage list \<times> pipeline" where
  "handle_generateChat rt p options =
     (let (calls, result, p') =
            generateChat rt p (options\<lparr>streamCallback := True, tokenCallback := True\<rparr>)
      in (\<lparr>msg_type = js ''generateChat'', msg_status = S_start,
           msg_data = SessionIdData (sessionId_or_falsy_default (sessionId options))\<rparr>
          # map (post_callback (js ''generateChat'')) calls
          @ [case result of
               Inr r \<Rightarrow> \<lparr>msg_type = js ''generateChat'', msg_status = S_complete, msg_data = ChatResultData r\<rparr>
             | Inl e \<Rightarrow> \<lparr>msg_type = js ''generateChat'', msg_status = S_error,
                        msg_data = ErrorData (error_message e)\<rparr>],
          p'))"

definition handle_generateSingle ::
  "runtime \<Rightarrow> pipeline \<Rightarrow> SingleGenerationOptions \<Rightarrow> WorkerMessage list \<times> pipeline" where
  "handle_generateSingle rt p options =
     (let (calls, result, p') =
            generateSingle rt p (options\<lparr>single_streamCallback := True, single_tokenCallback := True\<rparr>)
      in (\<lparr>msg_type = js ''generateSingle'', msg_status = S_start, msg_data = EmptyData\<rparr>
          # map (post_callback (js ''generateSingle'')) calls
          @ [case result of
               Inr r \<Rightarrow> \<lparr>msg_type = js ''generateSingle'', msg_status = S_complete, msg_data = SingleResultData r\<rparr>
             | Inl e \<Rightarrow> \<lparr>msg_type = js ''generateSingle'', msg_status = S_error,
                        msg_data = ErrorData (error_message e)\<rparr>],
          p'))"

subsection \<open>The message listener\<close>

text \<open>The own keys of the object literal \<open>messageHandlers\<close>.\<close>

definition messageHandlers_keys :: "jsstring list" where
  "messageHandlers_keys =
     [js ''check'', js ''initialize'', js ''generateChat'', js ''generateSingle'',
      js ''interrupt'', js ''clearSession'', js ''getSessionInfo'', js ''getModels'']"

text \<open>
  \<open>messageHandlers\<close> is an object literal, so \<open>messageHandlers[type]\<close> also finds the
  members that every object inherits from \<open>Object.prototype\<close>. Each of them is truthy.
\<close>

definition Object_prototype_keys :: "jsstring list" where
  "Object_prototype_keys =
     [js ''constructor'', js ''__defineGetter__'', js ''__defineSetter__'',
      js ''hasOwnProperty'', js ''__lookupGetter__'', js ''__lookupSetter__'',
      js ''isPrototypeOf'', js ''propertyIsEnumerable'', js ''toString'', js ''valueOf'',
      js ''__proto__'', js ''toLocaleString'']"

text \<open>
  The listener: \<open>handlers\<close> is what the handler stored under an own key does with the
  data. An inherited member is called in the same branch; none of them posts a message
  or touches the pipeline.
\<close>

definition listener ::
  "(jsstring \<Rightarrow> 'd \<Rightarrow> 'w \<Rightarrow> WorkerMessage list \<times> 'w) \<Rightarrow> jsstring \<Rightarrow> 'd \<Rightarrow> 'w \<Rightarrow> WorkerMessage list \<times> 'w" where
  "listener handlers ty d w =
     (if ty \<in> set messageHandlers_keys then handlers ty d w
      else if ty \<in> set Object_prototype_keys then ([], w)
      else ([\<lparr>msg_type = js ''error'', msg_status = S_error,
               msg_data = ErrorData (js ''Unknown message type: '' @ ty)\<rparr>], w))"

section \<open>Notions used by the properties\<close>

text \<open>The clock readings of the token events of a run, in order.\<close>

fun token_times :: "stream_event list \<Rightarrow> real list" where
  "token_times [] = []"
| "token_times (TokenEvent t # es) = t # token_times es"
| "token_times (TextEvent s # es) = token_times es"

text \<open>The text fragments of a run, concatenated.\<close>

fun streamed_text :: "stream_event list \<Rightarrow> jsstring" where
  "streamed_text [] = []"
| "streamed_text (TokenEvent t # es) = streamed_text es"
| "streamed_text (TextEvent s # es) = s @ streamed_text es"



text \<open>
  The session a chat call works on, once the user turn is pushed: the stored session
  of that identifier, or the one \<open>getSession\<close> creates, with the user message appended.
\<close>

definition chat_session :: "runtime \<Rightarrow> pipeline \<Rightarrow> ChatGenerationOptions \<Rightarrow> SessionData" where
  "chat_session rt p options =
     (let s = fst (getSession p (Some (sessionId_or_default (sessionId options)))
                     (systemMessage options) (date_now rt))
      in s\<lparr>messages := messages s @ [\<lparr>role = User, content = message options\<rparr>]\<rparr>)"


subsection \<open>Concrete inputs\<close>

definition loaded_pipeline :: pipeline where
  "loaded_pipeline =
     \<lparr>tokenizer = True, model = True, config = Some DEFAULT_GENERATION_CONFIG,
      sessionHistory = Map.empty, currentStoppingCriteria = None, generate_calls = []\<rparr>"

definition unloaded_pipeline :: pipeline where
  "unloaded_pipeline =
     \<lparr>tokenizer = False, model = False, config = None,
      sessionHistory = Map.empty, currentStoppingCriteria = None, generate_calls = []\<rparr>"

definition hello_options :: ChatGenerationOptions where
  "hello_options =
     \<lparr>message = js ''Hello'', sessionId = None, systemMessage = None,
      streamCallback = False, tokenCallback = False, generationConfig = None\<rparr>"

definition hello_single :: SingleGenerationOptions where
  "hello_single =
     \<lparr>prompt = js ''Hello'', single_systemMessage = None,
      single_streamCallback = False, single_tokenCallback = False,
      single_generationConfig = None\<rparr>"

text \<open>A runtime that emits two tokens and returns the cache 7.\<close>

definition answering_run :: generate_run where
  "answering_run =
     \<lparr>events = [TokenEvent 10, TextEvent (js ''Hi''), TokenEvent 20, TextEvent (js '' there'')],
      outcome = Inr \<lparr>sequences = [[1, 2, 3]], past_key_values = Some 7\<rparr>\<rparr>"

definition answering_runtime :: runtime where
  "answering_runtime =
     \<lparr>date_now = 1000,
      apply_chat_template = (\<lambda>msgs. Inr [1]),
      generate = (\<lambda>inputs pkv cfg. answering_run),
      batch_decode = (\<lambda>seqs. Inr [js ''user'' @ [0x000A] @ js ''Hello'' @ [0x000A] @ assistant_marker @ js ''Hi there '']),
      end_now = 30\<rparr>"

text \<open>A runtime whose generation throws.\<close>

definition throwing_run :: generate_run where
  "throwing_run = \<lparr>events = [], outcome = Inl (Error (js ''out of memory''))\<rparr>"

definition throwing_runtime :: runtime where
  "throwing_runtime =
     \<lparr>date_now = 2000,
      apply_chat_template = (\<lambda>msgs. Inr [1]),
      generate = (\<lambda>inputs pkv cfg. throwing_run),
      batch_decode = (\<lambda>seqs. Inr []),
      end_now = 40\<rparr>"

text \<open>A loaded pipeline in which the session \<open>default\<close> exists.\<close>

definition fresh_session :: SessionData where
  "fresh_session = \<lparr>messages = [DEFAULT_SYSTEM_MESSAGE], pastKeyValues = None, createdAt = 500\<rparr>"

definition chatting_pipeline :: pipeline where
  "chatting_pipeline =
     \<lparr>tokenizer = True, model = True, config = Some DEFAULT_GENERATION_CONFIG,
      sessionHistory = [js ''default'' \<mapsto> fresh_session],
      currentStoppingCriteria = None, generate_calls = []\<rparr>"



text \<open>The pipeline after a chat call that returned.\<close>

definition after_first_call :: pipeline where
  "after_first_call = snd (snd (generateChat answering_runtime loaded_pipeline hello_options))"

text \<open>Process-wide settings with two keys, and a per-call override of one of them.\<close>

definition example_defaults :: GenerationConfig where
  "example_defaults = [js ''temperature'' \<mapsto> JNum 0.7, js ''max_new_tokens'' \<mapsto> JNum 1024]"

definition example_overrides :: GenerationConfig where
  "example_overrides = [js ''max_new_tokens'' \<mapsto> JNum 256]"

definition configured_pipeline :: pipeline where
  "configured_pipeline = loaded_pipeline\<lparr>config := Some example_defaults\<rparr>"

section \<open>Properties\<close>

subsection \<open>Strings\<close>

lemma unat_of_char: "unat (of_char c :: 16 word) = (of_char c :: nat)"
proof -
  have "(of_char c :: nat) < 256" by (rule nat_of_char_less_256)
  hence lt: "(of_char c :: nat) < 2 ^ 16" by (rule less_trans) simp
  have "(of_char c :: 16 word) = of_nat (of_char c)" by (simp add: of_nat_of_char)
  hence "unat (of_char c :: 16 word) = unat (of_nat (of_char c :: nat) :: 16 word)" by simp
  also have "\<dots> = of_char c" using lt by (simp add: unat_of_nat take_bit_nat_eq_self)
  finally show ?thesis .
qed

lemma js_eq_iff: "js a = js b \<longleftrightarrow> a = b"
proof -
  have "inj (of_char :: char \<Rightarrow> 16 word)"
  proof (rule injI)
    fix c d :: char
    assume "(of_char c :: 16 word) = of_char d"
    hence "unat (of_char c :: 16 word) = unat (of_char d :: 16 word)" by simp
    hence "(of_char c :: nat) = of_char d" by (simp only: unat_of_char)
    thus "c = d" by simp
  qed
  thus ?thesis unfolding js_def by (simp add: inj_map_eq_map)
qed

subsection \<open>Splitting at a separator\<close>


lemma split_from_no_occurrence:
  "sep \<noteq> [] \<Longrightarrow> \<forall>pre post. s \<noteq> pre @ sep @ post \<Longrightarrow> split_from sep cur s = [cur @ s]"
proof (induction sep cur s rule: split_from.induct)
  case (1 sep cur)
  then show ?case by simp
next
  case (2 sep cur c cs)
  note ne = 2(3) and none = 2(4)
  have no_prefix: "take (length sep) (c # cs) \<noteq> sep"
  proof
    assume "take (length sep) (c # cs) = sep"
    hence "take (length sep) (c # cs) @ drop (length sep) (c # cs) = [] @ sep @ drop (length sep) (c # cs)"
      by (simp only: append_Nil)
    hence "c # cs = [] @ sep @ drop (length sep) (c # cs)"
      by (simp only: append_take_drop_id)
    with none show False by blast
  qed
  hence cond: "\<not> (sep \<noteq> [] \<and> take (length sep) (c # cs) = sep)" by simp
  have none': "\<forall>pre post. cs \<noteq> pre @ sep @ post"
  proof (intro allI notI)
    fix pre post assume "cs = pre @ sep @ post"
    hence "c # cs = (c # pre) @ sep @ post" by simp
    with none show False by blast
  qed
  from 2(2)[OF cond ne none'] have "split_from sep (cur @ [c]) cs = [(cur @ [c]) @ cs]" .
  moreover from no_prefix have "split_from sep cur (c # cs) = split_from sep (cur @ [c]) cs" by simp
  ultimately show ?case by simp
qed



lemma assistant_marker_props:
  "assistant_marker \<noteq> []" "last assistant_marker \<notin> set (butlast assistant_marker)"
  by (simp_all add: assistant_marker_def js_def)

subsection \<open>The streamer callbacks\<close>

lemma run_streamer_append:
  "run_streamer sc tc (xs @ ys) st =
     (let (c1, s1) = run_streamer sc tc xs st; (c2, s2) = run_streamer sc tc ys s1
      in (c1 @ c2, s2))"
  by (induction xs arbitrary: st) (simp_all add: Let_def split: prod.splits)

lemma tokenCallbackFunction_snd:
  "snd (tokenCallbackFunction tc t st) =
     st\<lparr>startTime := Some (case startTime st of None \<Rightarrow> t | Some s \<Rightarrow> s),
        numTokens := Suc (numTokens st)\<rparr>"
  by (simp add: tokenCallbackFunction_def Let_def)


lemma streamCallbackFunction_snd:
  "snd (streamCallbackFunction sc s st) = st\<lparr>generatedText := generatedText st @ s\<rparr>"
  by (simp add: streamCallbackFunction_def Let_def)


lemma run_streamer_token:
  "run_streamer sc tc (TokenEvent t # es) st =
     (fst (tokenCallbackFunction tc t st)
        @ fst (run_streamer sc tc es (snd (tokenCallbackFunction tc t st))),
      snd (run_streamer sc tc es (snd (tokenCallbackFunction tc t st))))"
  by (simp add: Let_def split: prod.splits)

lemma run_streamer_text:
  "run_streamer sc tc (TextEvent s # es) st =
     (fst (streamCallbackFunction sc s st)
        @ fst (run_streamer sc tc es (snd (streamCallbackFunction sc s st))),
      snd (run_streamer sc tc es (snd (streamCallbackFunction sc s st))))"
  by (simp add: Let_def split: prod.splits)

lemma run_streamer_state:
  "snd (run_streamer sc tc evs st) =
     st\<lparr>startTime := (case startTime st of Some t \<Rightarrow> Some t
                       | None \<Rightarrow> (case token_times evs of [] \<Rightarrow> None | t # ts \<Rightarrow> Some t)),
        numTokens := numTokens st + length (token_times evs),
        generatedText := generatedText st @ streamed_text evs\<rparr>"
proof (induction evs arbitrary: st)
  case Nil
  show ?case by (cases "startTime st") simp_all
next
  case (Cons e es)
  show ?case
  proof (cases e)
    case (TokenEvent t)
    show ?thesis
      unfolding TokenEvent run_streamer_token snd_conv Cons.IH tokenCallbackFunction_snd
      by (cases "startTime st") simp_all
  next
    case (TextEvent s)
    show ?thesis
      unfolding TextEvent run_streamer_text snd_conv Cons.IH streamCallbackFunction_snd
      by (cases "startTime st") simp_all
  qed
qed




subsection \<open>The coordinator\<close>

lemma generate_internal_frame:
  "generate_internal rt p msgs pkv cfg sc tc = (calls, r, p') \<Longrightarrow>
   sessionHistory p' = sessionHistory p \<and> model p' = model p \<and> tokenizer p' = tokenizer p
   \<and> config p' = config p
   \<and> generate_calls p' = generate_calls p @
        [\<lparr>call_messages = msgs, call_pastKeyValues = pkv, call_config = cfg\<rparr>]"
  by (auto simp: generate_internal_def Let_def split: sum.splits list.splits prod.splits)

lemma generate_internal_success:
  "generate_internal rt p msgs pkv cfg sc tc = (calls, Inr r, p') \<Longrightarrow>
   \<exists>inputs res d0 rest.
     apply_chat_template rt msgs = Inr inputs
     \<and> outcome (generate rt inputs pkv cfg) = Inr res
     \<and> batch_decode rt (sequences res) = Inr (d0 # rest)
     \<and> result_pastKeyValues r = past_key_values res
     \<and> result_text r = final_text d0 (streamed_text (events (generate rt inputs pkv cfg)))"
  by (auto simp: generate_internal_def Let_def initial_gen_state_def
        split: sum.splits list.splits prod.splits
        dest!: arg_cong[where f = snd and x = "run_streamer _ _ _ _"]
        simp: run_streamer_state)


subsection \<open>The mode adapters\<close>

lemma generateChat_uninitialized:
  "\<not> (model p \<and> tokenizer p) \<Longrightarrow> generateChat rt p options = ([], Inl uninitialized_error, p)"
  by (auto simp: generateChat_def)

lemma generateSingle_uninitialized:
  "\<not> (model p \<and> tokenizer p) \<Longrightarrow> generateSingle rt p options = ([], Inl uninitialized_error, p)"
  by (auto simp: generateSingle_def)

lemma generateChat_loaded:
  assumes "model p" "tokenizer p"
  shows "generateChat rt p options =
     (case generate_internal rt
             (p\<lparr>sessionHistory := (sessionHistory p)(sessionId_or_default (sessionId options) \<mapsto> chat_session rt p options)\<rparr>)
             (messages (chat_session rt p options)) (pastKeyValues (chat_session rt p options))
             (merged_config p (generationConfig options))
             (streamCallback options) (tokenCallback options) of
        (calls, Inl e, p3) \<Rightarrow> (calls, Inl e, p3)
      | (calls, Inr r, p3) \<Rightarrow>
          (calls,
           Inr \<lparr>chat_text = result_text r,
                chat_sessionId = sessionId_or_default (sessionId options),
                chat_messageCount = Suc (length (messages (chat_session rt p options))),
                chat_tokensPerSecond = result_tokensPerSecond r\<rparr>,
           p3\<lparr>sessionHistory := (sessionHistory p3)(sessionId_or_default (sessionId options) \<mapsto>
                (chat_session rt p options)
                  \<lparr>messages := messages (chat_session rt p options)
                                @ [\<lparr>role = Assistant, content = result_text r\<rparr>],
                    pastKeyValues := result_pastKeyValues r\<rparr>)\<rparr>))"
proof (cases "sessionHistory p (sessionId_or_default (sessionId options))")
  case None
  then show ?thesis using assms
    by (simp add: generateChat_def getSession_def chat_session_def Let_def merged_config_def
          sessionId_or_default_def split: prod.splits sum.splits)
next
  case (Some s)
  then show ?thesis using assms
    by (simp add: generateChat_def getSession_def chat_session_def Let_def merged_config_def
          sessionId_or_default_def split: prod.splits sum.splits)
qed

lemma generateChat_cases:
  assumes "model p" "tokenizer p"
  obtains (threw) calls e p3 where
      "generate_internal rt
             (p\<lparr>sessionHistory := (sessionHistory p)(sessionId_or_default (sessionId options) \<mapsto> chat_session rt p options)\<rparr>)
             (messages (chat_session rt p options)) (pastKeyValues (chat_session rt p options))
             (merged_config p (generationConfig options))
             (streamCallback options) (tokenCallback options) = (calls, Inl e, p3)"
      "generateChat rt p options = (calls, Inl e, p3)"
  | (returned) calls r p3 where
      "generate_internal rt
             (p\<lparr>sessionHistory := (sessionHistory p)(sessionId_or_default (sessionId options) \<mapsto> chat_session rt p options)\<rparr>)
             (messages (chat_session rt p options)) (pastKeyValues (chat_session rt p options))
             (merged_config p (generationConfig options))
             (streamCallback options) (tokenCallback options) = (calls, Inr r, p3)"
      "generateChat rt p options =
          (calls,
           Inr \<lparr>chat_text = result_text r,
                chat_sessionId = sessionId_or_default (sessionId options),
                chat_messageCount = Suc (length (messages (chat_session rt p options))),
                chat_tokensPerSecond = result_tokensPerSecond r\<rparr>,
           p3\<lparr>sessionHistory := (sessionHistory p3)(sessionId_or_default (sessionId options) \<mapsto>
                (chat_session rt p options)
                  \<lparr>messages := messages (chat_session rt p options)
                                @ [\<lparr>role = Assistant, content = result_text r\<rparr>],
                    pastKeyValues := result_pastKeyValues r\<rparr>)\<rparr>)"
proof -
  obtain calls res p3 where g: "generate_internal rt
             (p\<lparr>sessionHistory := (sessionHistory p)(sessionId_or_default (sessionId options) \<mapsto> chat_session rt p options)\<rparr>)
             (messages (chat_session rt p options)) (pastKeyValues (chat_session rt p options))
             (merged_config p (generationConfig options))
             (streamCallback options) (tokenCallback options) = (calls, res, p3)"
    by (rule prod_cases3)
  show thesis
  proof (cases res)
    case (Inl e)
    show thesis
      by (rule threw[of calls e p3])
         (simp_all add: generateChat_loaded[OF assms] g[unfolded Inl])
  next
    case (Inr r)
    show thesis
      by (rule returned[of calls r p3])
         (simp_all add: generateChat_loaded[OF assms] g[unfolded Inr])
  qed
qed

lemma generateChat_failure:
  assumes "model p" "tokenizer p"
    and "generateChat rt p options = (calls, Inl e, p')"
  shows "sessionHistory p' =
      (sessionHistory p)(sessionId_or_default (sessionId options) \<mapsto> chat_session rt p options)"
proof (rule generateChat_cases[OF assms(1,2), of rt options])
  fix calls0 e0 p3
  assume threw: "generate_internal rt
             (p\<lparr>sessionHistory := (sessionHistory p)(sessionId_or_default (sessionId options) \<mapsto> chat_session rt p options)\<rparr>)
             (messages (chat_session rt p options)) (pastKeyValues (chat_session rt p options))
             (merged_config p (generationConfig options))
             (streamCallback options) (tokenCallback options) = (calls0, Inl e0, p3)"
    "generateChat rt p options = (calls0, Inl e0, p3)"
  from threw(2) assms(3) have "p' = p3" by simp
  with generate_internal_frame[OF threw(1)] show ?thesis by simp
next
  fix calls0 r0 p3
  assume returned: "generate_internal rt
             (p\<lparr>sessionHistory := (sessionHistory p)(sessionId_or_default (sessionId options) \<mapsto> chat_session rt p options)\<rparr>)
             (messages (chat_session rt p options)) (pastKeyValues (chat_session rt p options))
             (merged_config p (generationConfig options))
             (streamCallback options) (tokenCallback options) = (calls0, Inr r0, p3)"
    "generateChat rt p options =
          (calls0,
           Inr \<lparr>chat_text = result_text r0,
                chat_sessionId = sessionId_or_default (sessionId options),
                chat_messageCount = Suc (length (messages (chat_session rt p options))),
                chat_tokensPerSecond = result_tokensPerSecond r0\<rparr>,
           p3\<lparr>sessionHistory := (sessionHistory p3)(sessionId_or_default (sessionId options) \<mapsto>
                (chat_session rt p options)
                  \<lparr>messages := messages (chat_session rt p options)
                                @ [\<lparr>role = Assistant, content = result_text r0\<rparr>],
                    pastKeyValues := result_pastKeyValues r0\<rparr>)\<rparr>)"
  from returned(2) assms(3) show ?thesis by simp
qed

lemma generateChat_success:
  assumes "generateChat rt p options = (calls, Inr r, p')"
  shows "model p \<and> tokenizer p \<and>
    (\<exists>inputs res.
      apply_chat_template rt (messages (chat_session rt p options)) = Inr inputs
      \<and> outcome (generate rt inputs (pastKeyValues (chat_session rt p options))
            (merged_config p (generationConfig options))) = Inr res
      \<and> sessionHistory p' =
          (sessionHistory p)(sessionId_or_default (sessionId options) \<mapsto>
            (chat_session rt p options)
              \<lparr>messages := messages (chat_session rt p options)
                            @ [\<lparr>role = Assistant, content = chat_text r\<rparr>],
                pastKeyValues := past_key_values res\<rparr>))"
proof -
  have loaded: "model p" "tokenizer p"
    using assms by (auto simp: generateChat_def split: if_splits)
  show ?thesis
  proof (rule generateChat_cases[OF loaded, of rt options])
  fix calls0 e0 p3
  assume threw: "generate_internal rt
             (p\<lparr>sessionHistory := (sessionHistory p)(sessionId_or_default (sessionId options) \<mapsto> chat_session rt p options)\<rparr>)
             (messages (chat_session rt p options)) (pastKeyValues (chat_session rt p options))
             (merged_config p (generationConfig options))
             (streamCallback options) (tokenCallback options) = (calls0, Inl e0, p3)"
    "generateChat rt p options = (calls0, Inl e0, p3)"
    from threw(2) assms show ?thesis by simp
  next
  fix calls0 r0 p3
  assume returned: "generate_internal rt
             (p\<lparr>sessionHistory := (sessionHistory p)(sessionId_or_default (sessionId options) \<mapsto> chat_session rt p options)\<rparr>)
             (messages (chat_session rt p options)) (pastKeyValues (chat_session rt p options))
             (merged_config p (generationConfig options))
             (streamCallback options) (tokenCallback options) = (calls0, Inr r0, p3)"
    "generateChat rt p options =
          (calls0,
           Inr \<lparr>chat_text = result_text r0,
                chat_sessionId = sessionId_or_default (sessionId options),
                chat_messageCount = Suc (length (messages (chat_session rt p options))),
                chat_tokensPerSecond = result_tokensPerSecond r0\<rparr>,
           p3\<lparr>sessionHistory := (sessionHistory p3)(sessionId_or_default (sessionId options) \<mapsto>
                (chat_session rt p options)
                  \<lparr>messages := messages (chat_session rt p options)
                                @ [\<lparr>role = Assistant, content = result_text r0\<rparr>],
                    pastKeyValues := result_pastKeyValues r0\<rparr>)\<rparr>)"
    from returned(2) assms have r: "chat_text r = result_text r0"
      and p': "p' = p3\<lparr>sessionHistory := (sessionHistory p3)(sessionId_or_default (sessionId options) \<mapsto>
                (chat_session rt p options)
                  \<lparr>messages := messages (chat_session rt p options)
                                @ [\<lparr>role = Assistant, content = result_text r0\<rparr>],
                    pastKeyValues := result_pastKeyValues r0\<rparr>)\<rparr>"
      by auto
    from generate_internal_success[OF returned(1)] obtain inputs res d0 rest where
      s: "apply_chat_template rt (messages (chat_session rt p options)) = Inr inputs"
         "outcome (generate rt inputs (pastKeyValues (chat_session rt p options))
            (merged_config p (generationConfig options))) = Inr res"
         "result_pastKeyValues r0 = past_key_values res"
      by blast
    from generate_internal_frame[OF returned(1)]
    have "sessionHistory p3 = (sessionHistory p)(sessionId_or_default (sessionId options) \<mapsto> chat_session rt p options)"
      by simp
    with p' r s(3) have "sessionHistory p' =
          (sessionHistory p)(sessionId_or_default (sessionId options) \<mapsto>
            (chat_session rt p options)
              \<lparr>messages := messages (chat_session rt p options)
                            @ [\<lparr>role = Assistant, content = chat_text r\<rparr>],
                pastKeyValues := past_key_values res\<rparr>)"
      by simp
    with loaded s(1,2) show ?thesis by blast
  qed
qed

lemma generateChat_log:
  assumes "model p" "tokenizer p"
    and "generateChat rt p options = (calls, r, p')"
  shows "generate_calls p' = generate_calls p @
           [\<lparr>call_messages = messages (chat_session rt p options),
             call_pastKeyValues = pastKeyValues (chat_session rt p options),
             call_config = merged_config p (generationConfig options)\<rparr>]
         \<and> model p' \<and> tokenizer p' \<and> config p' = config p"
proof (rule generateChat_cases[OF assms(1,2), of rt options])
  fix calls0 e0 p3
  assume threw: "generate_internal rt
             (p\<lparr>sessionHistory := (sessionHistory p)(sessionId_or_default (sessionId options) \<mapsto> chat_session rt p options)\<rparr>)
             (messages (chat_session rt p options)) (pastKeyValues (chat_session rt p options))
             (merged_config p (generationConfig options))
             (streamCallback options) (tokenCallback options) = (calls0, Inl e0, p3)"
    "generateChat rt p options = (calls0, Inl e0, p3)"
  from threw(2) assms(3) have "p' = p3" by simp
  with generate_internal_frame[OF threw(1)] assms(1,2) show ?thesis by simp
next
  fix calls0 r0 p3
  assume returned: "generate_internal rt
             (p\<lparr>sessionHistory := (sessionHistory p)(sessionId_or_default (sessionId options) \<mapsto> chat_session rt p options)\<rparr>)
             (messages (chat_session rt p options)) (pastKeyValues (chat_session rt p options))
             (merged_config p (generationConfig options))
             (streamCallback options) (tokenCallback options) = (calls0, Inr r0, p3)"
    "generateChat rt p options =
          (calls0,
           Inr \<lparr>chat_text = result_text r0,
                chat_sessionId = sessionId_or_default (sessionId options),
                chat_messageCount = Suc (length (messages (chat_session rt p options))),
                chat_tokensPerSecond = result_tokensPerSecond r0\<rparr>,
           p3\<lparr>sessionHistory := (sessionHistory p3)(sessionId_or_default (sessionId options) \<mapsto>
                (chat_session rt p options)
                  \<lparr>messages := messages (chat_session rt p options)
                                @ [\<lparr>role = Assistant, content = result_text r0\<rparr>],
                    pastKeyValues := result_pastKeyValues r0\<rparr>)\<rparr>)"
  from returned(2) assms(3) have "generate_calls p' = generate_calls p3"
     "model p' = model p3" "tokenizer p' = tokenizer p3" "config p' = config p3" by auto
  with generate_internal_frame[OF returned(1)] assms(1,2) show ?thesis by simp
qed

lemma generateSingle_frame:
  "sessionHistory (snd (snd (generateSingle rt p options))) = sessionHistory p"
proof (cases "\<not> model p \<or> \<not> tokenizer p")
  case True
  then show ?thesis by (simp add: generateSingle_def)
next
  case False
  obtain calls res p1 where g: "generate_internal rt p
      ((case single_systemMessage options of
                       None \<Rightarrow> []
                     | Some s \<Rightarrow> if s = [] then [] else [\<lparr>role = System, content = s\<rparr>])
                    @ [\<lparr>role = User, content = prompt options\<rparr>]) None
      (merged_config p (single_generationConfig options))
      (single_streamCallback options) (single_tokenCallback options) = (calls, res, p1)"
    by (rule prod_cases3)
  from generate_internal_frame[OF g] have "sessionHistory p1 = sessionHistory p" by simp
  with False g show ?thesis
    by (cases res) (simp_all add: generateSingle_def Let_def)
qed

section \<open>The claims\<close>

subsection \<open>Calls before a model is loaded\<close>

text \<open>
  C6. A generation call, chat or single, on a pipeline whose model or tokenizer is not
  loaded throws the uninitialized error and returns the pipeline as it was: no session
  is created or changed, and nothing else is. The handler posts its start event and then
  one error event with the message of that error, and the pipeline is still the same.
\<close>

theorem uninitialized_rejected:
  assumes "\<not> (model p \<and> tokenizer p)"
  shows "generateChat rt p chat = ([], Inl uninitialized_error, p)
       \<and> generateSingle rt p single = ([], Inl uninitialized_error, p)
       \<and> handle_generateChat rt p chat =
           ([\<lparr>msg_type = js ''generateChat'', msg_status = S_start,
              msg_data = SessionIdData (sessionId_or_falsy_default (sessionId chat))\<rparr>,
             \<lparr>msg_type = js ''generateChat'', msg_status = S_error,
              msg_data = ErrorData (js ''Model not initialized. Call initialize() first.'')\<rparr>], p)
       \<and> handle_generateSingle rt p single =
           ([\<lparr>msg_type = js ''generateSingle'', msg_status = S_start, msg_data = EmptyData\<rparr>,
             \<lparr>msg_type = js ''generateSingle'', msg_status = S_error,
              msg_data = ErrorData (js ''Model not initialized. Call initialize() first.'')\<rparr>], p)"
proof -
  have chat: "generateChat rt p options = ([], Inl uninitialized_error, p)" for options
    using assms by (rule generateChat_uninitialized)
  have single: "generateSingle rt p options = ([], Inl uninitialized_error, p)" for options
    using assms by (rule generateSingle_uninitialized)
  show ?thesis
    by (simp add: chat single handle_generateChat_def handle_generateSingle_def
          uninitialized_error_def)
qed

theorem uninitialized_rejected_witness:
  "\<not> (model unloaded_pipeline \<and> tokenizer unloaded_pipeline)
   \<and> generateChat answering_runtime unloaded_pipeline hello_options
       = ([], Inl uninitialized_error, unloaded_pipeline)
   \<and> generateSingle answering_runtime unloaded_pipeline hello_single
       = ([], Inl uninitialized_error, unloaded_pipeline)
   \<and> sessionHistory (snd (handle_generateChat answering_runtime unloaded_pipeline hello_options))
       = Map.empty"
proof -
  have h: "\<not> (model unloaded_pipeline \<and> tokenizer unloaded_pipeline)"
    by (simp add: unloaded_pipeline_def)
  from uninitialized_rejected[OF h, of answering_runtime hello_options hello_single]
  show ?thesis using h by (simp add: unloaded_pipeline_def)
qed

subsection \<open>Single mode and the session store\<close>

text \<open>
  C5. A single-mode call leaves the Map of sessions as it was, whether it returns or
  throws, called directly or through its handler; so \<open>getSessionInfo\<close> answers the
  same for every identifier before and after.
\<close>

theorem single_mode_leaves_sessions:
  "sessionHistory (snd (snd (generateSingle rt p options))) = sessionHistory p
   \<and> sessionHistory (snd (handle_generateSingle rt p options)) = sessionHistory p
   \<and> getSessionInfo (snd (snd (generateSingle rt p options))) sid = getSessionInfo p sid
   \<and> getSessionInfo (snd (handle_generateSingle rt p options)) sid = getSessionInfo p sid"
proof -
  have a: "sessionHistory (snd (snd (generateSingle rt p opts))) = sessionHistory p" for opts
    by (rule generateSingle_frame)
  have b: "sessionHistory (snd (handle_generateSingle rt p options)) = sessionHistory p"
    using a[of "options\<lparr>single_streamCallback := True, single_tokenCallback := True\<rparr>"]
    by (simp add: handle_generateSingle_def case_prod_beta)
  show ?thesis using a[of options] b by (simp add: getSessionInfo_def)
qed

theorem single_mode_leaves_sessions_witness:
  "sessionHistory (snd (handle_generateSingle answering_runtime chatting_pipeline hello_single))
     = sessionHistory chatting_pipeline
   \<and> getSessionInfo (snd (handle_generateSingle answering_runtime chatting_pipeline hello_single)) None
     = Some \<lparr>messageCount = 1, info_createdAt = 500, hasPastKeyValues = False\<rparr>"
  using single_mode_leaves_sessions[of answering_runtime chatting_pipeline hello_single None]
  by (simp add: getSessionInfo_def chatting_pipeline_def fresh_session_def sessionId_or_default_def)

subsection \<open>The system message of an existing session\<close>

text \<open>
  C10. When the identifier already has a session, \<open>getSession\<close> returns that session
  and changes nothing, whatever system message is passed; and a chat call with a custom
  system message does exactly what the same call without one does.
\<close>

theorem existing_session_ignores_system_message:
  assumes "sessionHistory p (sessionId_or_default sid) = Some s"
  shows "getSession p sid sysmsg now = (s, p)
       \<and> generateChat rt p (options\<lparr>sessionId := sid, systemMessage := sysmsg\<rparr>)
           = generateChat rt p (options\<lparr>sessionId := sid, systemMessage := None\<rparr>)"
  using assms
  by (simp add: getSession_def generateChat_def sessionId_or_default_def Let_def)

theorem existing_session_ignores_system_message_witness:
  "sessionHistory chatting_pipeline (sessionId_or_default None) = Some fresh_session
   \<and> getSession chatting_pipeline None (Some (js ''You are a pirate.'')) 1234
       = (fresh_session, chatting_pipeline)
   \<and> generateChat answering_runtime chatting_pipeline
         (hello_options\<lparr>sessionId := None, systemMessage := Some (js ''You are a pirate.'')\<rparr>)
       = generateChat answering_runtime chatting_pipeline
         (hello_options\<lparr>sessionId := None, systemMessage := None\<rparr>)"
proof -
  have h: "sessionHistory chatting_pipeline (sessionId_or_default None) = Some fresh_session"
    by (simp add: chatting_pipeline_def sessionId_or_default_def)
  from existing_session_ignores_system_message[OF h] show ?thesis using h by blast
qed

subsection \<open>Request types without a handler\<close>

text \<open>
  A type that is neither an own key of \<open>messageHandlers\<close> nor the name of an inherited
  member gets exactly one error event naming it; \<open>frobnicate\<close> is such a type.
\<close>

lemma unknown_type_reported:
  assumes "ty \<notin> set messageHandlers_keys" "ty \<notin> set Object_prototype_keys"
  shows "listener handlers ty d w =
     ([\<lparr>msg_type = js ''error'', msg_status = S_error,
        msg_data = ErrorData (js ''Unknown message type: '' @ ty)\<rparr>], w)"
  using assms by (simp add: listener_def)

lemma frobnicate_reported:
  "listener handlers (js ''frobnicate'') d w =
     ([\<lparr>msg_type = js ''error'', msg_status = S_error,
        msg_data = ErrorData (js ''Unknown message type: '' @ js ''frobnicate'')\<rparr>], w)"
  by (rule unknown_type_reported)
     (simp_all add: messageHandlers_keys_def Object_prototype_keys_def js_eq_iff)

text \<open>
  C9. The claim is that every type without a handler gets exactly one error event. For
  the type \<open>toString\<close>, which is no handler, the listener posts nothing: the lookup
  finds the member inherited from \<open>Object.prototype\<close>, and the listener calls it.
\<close>

theorem inherited_member_type_dropped:
  "js ''toString'' \<notin> set messageHandlers_keys
   \<and> listener handlers (js ''toString'') d w = ([], w)"
  by (simp add: listener_def messageHandlers_keys_def Object_prototype_keys_def js_eq_iff)

subsection \<open>The token-rate observer\<close>



subsection \<open>The final text\<close>



lemma final_text_no_occurrence:
  assumes "\<forall>pre post. d0 \<noteq> pre @ assistant_marker @ post"
  shows "final_text d0 generated = (if js_trim d0 = [] then generated else js_trim d0)"
proof -
  have "split_from assistant_marker [] d0 = [[] @ d0]"
    by (rule split_from_no_occurrence[OF assistant_marker_props(1) assms])
  thus ?thesis
    by (simp add: final_text_def js_split_def assistant_marker_props(1) Let_def)
qed




subsection \<open>The settings of a call\<close>

lemma generateSingle_log:
  assumes "model p" "tokenizer p"
  shows "\<exists>msgs. generate_calls (snd (snd (generateSingle rt p options))) = generate_calls p @
     [\<lparr>call_messages = msgs, call_pastKeyValues = None,
       call_config = merged_config p (single_generationConfig options)\<rparr>]"
proof -
  obtain calls res p1 where g: "generate_internal rt p
      ((case single_systemMessage options of
                       None \<Rightarrow> []
                     | Some s \<Rightarrow> if s = [] then [] else [\<lparr>role = System, content = s\<rparr>])
                    @ [\<lparr>role = User, content = prompt options\<rparr>]) None
      (merged_config p (single_generationConfig options))
      (single_streamCallback options) (single_tokenCallback options) = (calls, res, p1)"
    by (rule prod_cases3)
  from generate_internal_frame[OF g] g assms show ?thesis
    by (cases res) (simp_all add: generateSingle_def Let_def)
qed

lemma merged_config_key:
  "config p = Some defaults \<Longrightarrow>
   merged_config p overrides k =
     (case (case overrides of None \<Rightarrow> Map.empty | Some g \<Rightarrow> g) k of
        Some v \<Rightarrow> Some v
      | None \<Rightarrow> defaults k)"
  by (simp add: merged_config_def map_add_def split: option.splits)

text \<open>
  C7. In a loaded pipeline with the process-wide settings \<open>defaults\<close>, the settings
  that \<open>_generate\<close> receives from a chat call, and from a single call, have under every
  key the value of the per-call overrides when the overrides have that key, and the
  value of \<open>defaults\<close> otherwise.
\<close>

theorem merged_generation_settings:
  assumes "model p" "tokenizer p" "config p = Some defaults"
  shows "call_config (last (generate_calls (snd (snd (generateChat rt p chat))))) k =
           (case (case generationConfig chat of None \<Rightarrow> Map.empty | Some g \<Rightarrow> g) k of
              Some v \<Rightarrow> Some v
            | None \<Rightarrow> defaults k)
       \<and> call_config (last (generate_calls (snd (snd (generateSingle rt p single))))) k =
           (case (case single_generationConfig single of None \<Rightarrow> Map.empty | Some g \<Rightarrow> g) k of
              Some v \<Rightarrow> Some v
            | None \<Rightarrow> defaults k)"
proof -
  obtain calls r p' where g: "generateChat rt p chat = (calls, r, p')"
    by (rule prod_cases3)
  from generateChat_log[OF assms(1,2) g]
  have "call_config (last (generate_calls p')) = merged_config p (generationConfig chat)"
    by simp
  hence a: "call_config (last (generate_calls (snd (snd (generateChat rt p chat))))) k
      = merged_config p (generationConfig chat) k"
    by (simp add: g)
  from generateSingle_log[OF assms(1,2), of rt single]
  have b: "call_config (last (generate_calls (snd (snd (generateSingle rt p single))))) k
      = merged_config p (single_generationConfig single) k"
    by auto
  show ?thesis
    by (simp only: a b merged_config_key[OF assms(3)] simp_thms)
qed

theorem merged_generation_settings_witness:
  "call_config (last (generate_calls (snd (snd (generateChat answering_runtime configured_pipeline
       (hello_options\<lparr>generationConfig := Some example_overrides\<rparr>))))))
     (js ''temperature'') = Some (JNum 0.7)
   \<and> call_config (last (generate_calls (snd (snd (generateChat answering_runtime configured_pipeline
       (hello_options\<lparr>generationConfig := Some example_overrides\<rparr>))))))
     (js ''max_new_tokens'') = Some (JNum 256)
   \<and> call_config (last (generate_calls (snd (snd (generateSingle answering_runtime configured_pipeline
       (hello_single\<lparr>single_generationConfig := Some example_overrides\<rparr>))))))
     (js ''temperature'') = Some (JNum 0.7)
   \<and> call_config (last (generate_calls (snd (snd (generateSingle answering_runtime configured_pipeline
       (hello_single\<lparr>single_generationConfig := Some example_overrides\<rparr>))))))
     (js ''max_new_tokens'') = Some (JNum 256)"
proof -
  have h: "model configured_pipeline" "tokenizer configured_pipeline"
      "config configured_pipeline = Some example_defaults"
    by (simp_all add: configured_pipeline_def loaded_pipeline_def)
  note t = merged_generation_settings[OF h, of answering_runtime
      "hello_options\<lparr>generationConfig := Some example_overrides\<rparr>" _
      "hello_single\<lparr>single_generationConfig := Some example_overrides\<rparr>"]
  from t[of "js ''temperature''"] t[of "js ''max_new_tokens''"]
  show ?thesis
    by (simp add: example_defaults_def example_overrides_def js_eq_iff)
qed

subsection \<open>The cache between two chat calls\<close>

lemma chat_session_existing:
  "sessionHistory p (sessionId_or_default (sessionId options)) = Some s \<Longrightarrow>
   chat_session rt p options = s\<lparr>messages := messages s @ [\<lparr>role = User, content = message options\<rparr>]\<rparr>"
  by (simp add: chat_session_def getSession_def sessionId_or_default_def Let_def)

lemma answering_chat_returns:
  "model p \<Longrightarrow> tokenizer p \<Longrightarrow> \<exists>r. fst (snd (generateChat answering_runtime p options)) = Inr r"
  by (simp add: generateChat_loaded generate_internal_def answering_runtime_def answering_run_def
        Let_def case_prod_beta)

text \<open>
  C3. When a chat call returns and the next chat call is on the same session identifier,
  the cache that \<open>_generate\<close> receives in the second call is the cache that the model
  runtime returned in the first one.
\<close>

theorem cache_round_trip:
  assumes "generateChat rt1 p options1 = (calls1, Inr r1, p1)"
    and "generateChat rt2 p1 options2 = (calls2, r2, p2)"
    and "sessionId_or_default (sessionId options2) = sessionId_or_default (sessionId options1)"
  shows "\<exists>call1 call2 inputs res.
      generate_calls p2 = generate_calls p @ [call1, call2]
      \<and> apply_chat_template rt1 (call_messages call1) = Inr inputs
      \<and> outcome (generate rt1 inputs (call_pastKeyValues call1) (call_config call1)) = Inr res
      \<and> call_pastKeyValues call2 = past_key_values res"
proof -
  from generateChat_success[OF assms(1)] obtain inputs res where
    loaded: "model p" "tokenizer p"
    and tmpl: "apply_chat_template rt1 (messages (chat_session rt1 p options1)) = Inr inputs"
    and out: "outcome (generate rt1 inputs (pastKeyValues (chat_session rt1 p options1))
            (merged_config p (generationConfig options1))) = Inr res"
    and store: "sessionHistory p1 =
          (sessionHistory p)(sessionId_or_default (sessionId options1) \<mapsto>
            (chat_session rt1 p options1)
              \<lparr>messages := messages (chat_session rt1 p options1)
                            @ [\<lparr>role = Assistant, content = chat_text r1\<rparr>],
                pastKeyValues := past_key_values res\<rparr>)"
    by blast
  define call1 where "call1 =
      \<lparr>call_messages = messages (chat_session rt1 p options1),
       call_pastKeyValues = pastKeyValues (chat_session rt1 p options1),
       call_config = merged_config p (generationConfig options1)\<rparr>"
  define call2 where "call2 =
      \<lparr>call_messages = messages (chat_session rt2 p1 options2),
       call_pastKeyValues = pastKeyValues (chat_session rt2 p1 options2),
       call_config = merged_config p1 (generationConfig options2)\<rparr>"
  from generateChat_log[OF loaded assms(1)]
  have log1: "generate_calls p1 = generate_calls p @ [call1]"
    and loaded1: "model p1" "tokenizer p1"
    by (simp_all add: call1_def)
  from generateChat_log[OF loaded1 assms(2)]
  have log2: "generate_calls p2 = generate_calls p1 @ [call2]"
    by (simp add: call2_def)
  from store assms(3) have "sessionHistory p1 (sessionId_or_default (sessionId options2)) =
      Some ((chat_session rt1 p options1)
              \<lparr>messages := messages (chat_session rt1 p options1)
                            @ [\<lparr>role = Assistant, content = chat_text r1\<rparr>],
                pastKeyValues := past_key_values res\<rparr>)"
    by simp
  from chat_session_existing[OF this, of rt2]
  have "pastKeyValues (chat_session rt2 p1 options2) = past_key_values res" by simp
  hence c2: "call_pastKeyValues call2 = past_key_values res" by (simp add: call2_def)
  have "generate_calls p2 = generate_calls p @ [call1, call2]"
    using log1 log2 by simp
  moreover have "apply_chat_template rt1 (call_messages call1) = Inr inputs"
    using tmpl by (simp add: call1_def)
  moreover have "outcome (generate rt1 inputs (call_pastKeyValues call1) (call_config call1)) = Inr res"
    using out by (simp add: call1_def)
  ultimately show ?thesis using c2 by blast
qed

theorem cache_round_trip_witness:
  "call_pastKeyValues (last (generate_calls
      (snd (snd (generateChat answering_runtime after_first_call hello_options))))) = Some 7
   \<and> past_key_values \<lparr>sequences = [[1, 2, 3]], past_key_values = Some 7\<rparr> = Some 7
   \<and> outcome (generate answering_runtime [1] None DEFAULT_GENERATION_CONFIG)
       = Inr \<lparr>sequences = [[1, 2, 3]], past_key_values = Some 7\<rparr>"
proof -
  have loaded: "model loaded_pipeline" "tokenizer loaded_pipeline"
    by (simp_all add: loaded_pipeline_def)
  from answering_chat_returns[OF loaded, of hello_options] obtain r1 where
    "fst (snd (generateChat answering_runtime loaded_pipeline hello_options)) = Inr r1" ..
  hence g1: "generateChat answering_runtime loaded_pipeline hello_options
      = (fst (generateChat answering_runtime loaded_pipeline hello_options), Inr r1, after_first_call)"
    by (simp add: after_first_call_def prod_eq_iff)
  obtain calls2 r2 p2 where g2:
    "generateChat answering_runtime after_first_call hello_options = (calls2, r2, p2)"
    by (rule prod_cases3)
  from cache_round_trip[OF g1 g2 refl] obtain call1 call2 inputs res where
    c: "generate_calls p2 = generate_calls loaded_pipeline @ [call1, call2]"
       "outcome (generate answering_runtime inputs (call_pastKeyValues call1) (call_config call1)) = Inr res"
       "call_pastKeyValues call2 = past_key_values res"
    by blast
  from c(2) have "past_key_values res = Some 7"
    by (auto simp: answering_runtime_def answering_run_def)
  with c(1,3) g2 show ?thesis
    by (simp add: answering_runtime_def answering_run_def)
qed

subsection \<open>A chat call whose generation throws\<close>

lemma throwing_chat_fails:
  "model p \<Longrightarrow> tokenizer p \<Longrightarrow>
   fst (generateChat throwing_runtime p options) = []
   \<and> fst (snd (generateChat throwing_runtime p options)) = Inl (Error (js ''out of memory''))"
  by (simp add: generateChat_loaded generate_internal_def throwing_runtime_def throwing_run_def
        Let_def case_prod_beta)

text \<open>
  C1, as the code has it. When a chat call on an existing session throws after the
  model check, the handler posts its start event, the observer events and one error
  event, and the stored session differs from the one before the call in its message
  sequence only, which has the user message of the call appended: the cache and the
  creation time are what they were, no assistant turn is appended, and no other session
  changes.
\<close>

theorem failed_chat_keeps_user_turn:
  assumes "model p" "tokenizer p"
    and "sessionHistory p (sessionId_or_default (sessionId options)) = Some s"
    and "generateChat rt p (options\<lparr>streamCallback := True, tokenCallback := True\<rparr>) = (calls, Inl e, p')"
  shows "handle_generateChat rt p options =
           (\<lparr>msg_type = js ''generateChat'', msg_status = S_start,
             msg_data = SessionIdData (sessionId_or_falsy_default (sessionId options))\<rparr>
            # map (post_callback (js ''generateChat'')) calls
            @ [\<lparr>msg_type = js ''generateChat'', msg_status = S_error,
                msg_data = ErrorData (error_message e)\<rparr>],
            p')
       \<and> sessionHistory p' =
           (sessionHistory p)(sessionId_or_default (sessionId options) \<mapsto>
              s\<lparr>messages := messages s @ [\<lparr>role = User, content = message options\<rparr>]\<rparr>)"
proof -
  have h: "handle_generateChat rt p options =
           (\<lparr>msg_type = js ''generateChat'', msg_status = S_start,
             msg_data = SessionIdData (sessionId_or_falsy_default (sessionId options))\<rparr>
            # map (post_callback (js ''generateChat'')) calls
            @ [\<lparr>msg_type = js ''generateChat'', msg_status = S_error,
                msg_data = ErrorData (error_message e)\<rparr>],
            p')"
    by (simp add: handle_generateChat_def assms(4))
  have sid: "sessionHistory p (sessionId_or_default
        (sessionId (options\<lparr>streamCallback := True, tokenCallback := True\<rparr>))) = Some s"
    using assms(3) by simp
  from generateChat_failure[OF assms(1,2,4)]
  have "sessionHistory p' =
           (sessionHistory p)(sessionId_or_default (sessionId options) \<mapsto>
              s\<lparr>messages := messages s @ [\<lparr>role = User, content = message options\<rparr>]\<rparr>)"
    by (simp add: chat_session_existing[OF sid])
  with h show ?thesis by simp
qed

theorem failed_chat_keeps_user_turn_witness:
  "sessionHistory (snd (handle_generateChat throwing_runtime chatting_pipeline hello_options))
     (js ''default'')
     = Some \<lparr>messages = [DEFAULT_SYSTEM_MESSAGE, \<lparr>role = User, content = js ''Hello''\<rparr>],
             pastKeyValues = None, createdAt = 500\<rparr>
   \<and> fst (handle_generateChat throwing_runtime chatting_pipeline hello_options)
     = [\<lparr>msg_type = js ''generateChat'', msg_status = S_start, msg_data = SessionIdData (js ''default'')\<rparr>,
        \<lparr>msg_type = js ''generateChat'', msg_status = S_error, msg_data = ErrorData (js ''out of memory'')\<rparr>]"
proof -
  have loaded: "model chatting_pipeline" "tokenizer chatting_pipeline"
    by (simp_all add: chatting_pipeline_def)
  have s: "sessionHistory chatting_pipeline (sessionId_or_default (sessionId hello_options))
      = Some fresh_session"
    by (simp add: chatting_pipeline_def hello_options_def sessionId_or_default_def)
  from throwing_chat_fails[OF loaded,
      of "hello_options\<lparr>streamCallback := True, tokenCallback := True\<rparr>"]
  have g: "generateChat throwing_runtime chatting_pipeline
        (hello_options\<lparr>streamCallback := True, tokenCallback := True\<rparr>)
      = ([], Inl (Error (js ''out of memory'')),
         snd (snd (generateChat throwing_runtime chatting_pipeline
           (hello_options\<lparr>streamCallback := True, tokenCallback := True\<rparr>))))"
    by (simp add: prod_eq_iff)
  from failed_chat_keeps_user_turn[OF loaded s g]
  show ?thesis
    by (simp add: hello_options_def sessionId_or_default_def sessionId_or_falsy_default_def
          fresh_session_def)
qed

text \<open>
  C1, as stated, fails: the session \<open>default\<close> holds the system message alone, the
  generation throws, the handler reports the error, and the session then holds the
  system message and the user message.
\<close>

theorem failed_chat_changes_history:
  "model chatting_pipeline \<and> tokenizer chatting_pipeline
   \<and> outcome (generate throwing_runtime [1] None DEFAULT_GENERATION_CONFIG)
       = Inl (Error (js ''out of memory''))
   \<and> last (fst (handle_generateChat throwing_runtime chatting_pipeline hello_options))
       = \<lparr>msg_type = js ''generateChat'', msg_status = S_error,
          msg_data = ErrorData (js ''out of memory'')\<rparr>
   \<and> map_option messages (sessionHistory chatting_pipeline (js ''default''))
       = Some [DEFAULT_SYSTEM_MESSAGE]
   \<and> map_option messages
        (sessionHistory (snd (handle_generateChat throwing_runtime chatting_pipeline hello_options))
           (js ''default''))
       = Some [DEFAULT_SYSTEM_MESSAGE, \<lparr>role = User, content = js ''Hello''\<rparr>]
   \<and> sessionHistory (snd (handle_generateChat throwing_runtime chatting_pipeline hello_options))
           (js ''default'')
       \<noteq> sessionHistory chatting_pipeline (js ''default'')"
proof -
  have loaded: "model chatting_pipeline" "tokenizer chatting_pipeline"
    by (simp_all add: chatting_pipeline_def)
  have s: "sessionHistory chatting_pipeline (sessionId_or_default (sessionId hello_options))
      = Some fresh_session"
    by (simp add: chatting_pipeline_def hello_options_def sessionId_or_default_def)
  from throwing_chat_fails[OF loaded,
      of "hello_options\<lparr>streamCallback := True, tokenCallback := True\<rparr>"]
  have g: "generateChat throwing_runtime chatting_pipeline
        (hello_options\<lparr>streamCallback := True, tokenCallback := True\<rparr>)
      = ([], Inl (Error (js ''out of memory'')),
         snd (snd (generateChat throwing_runtime chatting_pipeline
           (hello_options\<lparr>streamCallback := True, tokenCallback := True\<rparr>))))"
    by (simp add: prod_eq_iff)
  have h: "handle_generateChat throwing_runtime chatting_pipeline hello_options =
      ([\<lparr>msg_type = js ''generateChat'', msg_status = S_start,
         msg_data = SessionIdData (sessionId_or_falsy_default (sessionId hello_options))\<rparr>,
        \<lparr>msg_type = js ''generateChat'', msg_status = S_error,
         msg_data = ErrorData (js ''out of memory'')\<rparr>],
       snd (snd (generateChat throwing_runtime chatting_pipeline
           (hello_options\<lparr>streamCallback := True, tokenCallback := True\<rparr>))))"
    by (subst handle_generateChat_def, subst g) simp
  from generateChat_failure[OF loaded g]
  have store: "sessionHistory (snd (snd (generateChat throwing_runtime chatting_pipeline
           (hello_options\<lparr>streamCallback := True, tokenCallback := True\<rparr>)))) (js ''default'')
      = Some \<lparr>messages = [DEFAULT_SYSTEM_MESSAGE, \<lparr>role = User, content = js ''Hello''\<rparr>],
             pastKeyValues = None, createdAt = 500\<rparr>"
    using s
    by (simp add: chat_session_existing hello_options_def sessionId_or_default_def fresh_session_def)
  have out: "outcome (generate throwing_runtime [1] None DEFAULT_GENERATION_CONFIG)
       = Inl (Error (js ''out of memory''))"
    by (simp add: throwing_runtime_def throwing_run_def)
  have before: "sessionHistory chatting_pipeline (js ''default'') = Some fresh_session"
    by (simp add: chatting_pipeline_def)
  have after: "sessionHistory (snd (handle_generateChat throwing_runtime chatting_pipeline hello_options))
        (js ''default'')
      = Some \<lparr>messages = [DEFAULT_SYSTEM_MESSAGE, \<lparr>role = User, content = js ''Hello''\<rparr>],
             pastKeyValues = None, createdAt = 500\<rparr>"
    by (simp only: h snd_conv store)
  have lst: "last (fst (handle_generateChat throwing_runtime chatting_pipeline hello_options))
       = \<lparr>msg_type = js ''generateChat'', msg_status = S_error,
          msg_data = ErrorData (js ''out of memory'')\<rparr>"
    by (simp only: h fst_conv) simp
  show ?thesis
    using loaded out lst
    by (simp add: before after fresh_session_def)
qed

subsection \<open>The shape of a session's history\<close>









end
